theory Spec2Isabelle
  imports Complex_Main "HOL-Library.Multiset"
begin

section \<open>JavaScript numbers\<close>

text \<open>
  Every value of the TypeScript type \<open>number\<close> is modelled as a \<open>jsnum\<close>: a real
  number, one of the two infinities, or NaN.  Arithmetic on finite values is exact: the
  rounding of binary floating point and overflow to an infinity are not modelled, and the
  two zeros of IEEE 754 are identified.  Comparisons, \<open>Math.min\<close>, \<open>Math.round\<close> and
  truthiness follow ECMAScript on the special values: every comparison with NaN is false,
  NaN and 0 are falsy.
\<close>

datatype jsnum = Fin real | PosInf | NegInf | NaN

fun js_lt :: "jsnum \<Rightarrow> jsnum \<Rightarrow> bool" where
  "js_lt NaN _ = False"
| "js_lt _ NaN = False"
| "js_lt (Fin a) (Fin b) = (a < b)"
| "js_lt _ NegInf = False"
| "js_lt PosInf _ = False"
| "js_lt NegInf _ = True"
| "js_lt _ PosInf = True"

definition js_le :: "jsnum \<Rightarrow> jsnum \<Rightarrow> bool" where
  "js_le a b = (a \<noteq> NaN \<and> b \<noteq> NaN \<and> \<not> js_lt b a)"

definition js_gt :: "jsnum \<Rightarrow> jsnum \<Rightarrow> bool" where
  "js_gt a b = js_lt b a"

definition js_ge :: "jsnum \<Rightarrow> jsnum \<Rightarrow> bool" where
  "js_ge a b = js_le b a"

fun js_neg :: "jsnum \<Rightarrow> jsnum" where
  "js_neg (Fin a) = Fin (- a)"
| "js_neg PosInf = NegInf"
| "js_neg NegInf = PosInf"
| "js_neg NaN = NaN"

fun js_add :: "jsnum \<Rightarrow> jsnum \<Rightarrow> jsnum" where
  "js_add NaN _ = NaN"
| "js_add _ NaN = NaN"
| "js_add (Fin a) (Fin b) = Fin (a + b)"
| "js_add PosInf NegInf = NaN"
| "js_add NegInf PosInf = NaN"
| "js_add PosInf _ = PosInf"
| "js_add _ PosInf = PosInf"
| "js_add NegInf _ = NegInf"
| "js_add _ NegInf = NegInf"

definition js_sub :: "jsnum \<Rightarrow> jsnum \<Rightarrow> jsnum" where
  "js_sub a b = js_add a (js_neg b)"

text \<open>The infinity with the sign of a real; used for products and quotients.\<close>

definition signed_inf :: "bool \<Rightarrow> jsnum" where
  "signed_inf positive = (if positive then PosInf else NegInf)"

fun js_mul :: "jsnum \<Rightarrow> jsnum \<Rightarrow> jsnum" where
  "js_mul NaN _ = NaN"
| "js_mul _ NaN = NaN"
| "js_mul (Fin a) (Fin b) = Fin (a * b)"
| "js_mul PosInf (Fin b) = (if b = 0 then NaN else signed_inf (0 < b))"
| "js_mul NegInf (Fin b) = (if b = 0 then NaN else signed_inf (b < 0))"
| "js_mul (Fin a) PosInf = (if a = 0 then NaN else signed_inf (0 < a))"
| "js_mul (Fin a) NegInf = (if a = 0 then NaN else signed_inf (a < 0))"
| "js_mul PosInf PosInf = PosInf"
| "js_mul NegInf NegInf = PosInf"
| "js_mul PosInf NegInf = NegInf"
| "js_mul NegInf PosInf = NegInf"

text \<open>
  Division.  A zero divisor is read as \<open>+0\<close>; no division of the modelled code has a
  zero divisor (the divisors are non-zero constants, or a length checked to be non-zero).
\<close>

fun js_div :: "jsnum \<Rightarrow> jsnum \<Rightarrow> jsnum" where
  "js_div NaN _ = NaN"
| "js_div _ NaN = NaN"
| "js_div (Fin a) (Fin b) =
     (if b = 0 then (if a = 0 then NaN else signed_inf (0 < a)) else Fin (a / b))"
| "js_div (Fin a) _ = Fin 0"
| "js_div PosInf (Fin b) = signed_inf (0 \<le> b)"
| "js_div NegInf (Fin b) = signed_inf (b < 0)"
| "js_div _ _ = NaN"

text \<open>\<open>Math.min\<close> of two arguments and \<open>Math.round\<close> (halves round up).\<close>

definition js_min :: "jsnum \<Rightarrow> jsnum \<Rightarrow> jsnum" where
  "js_min a b = (if a = NaN \<or> b = NaN then NaN else if js_le a b then a else b)"

fun js_round :: "jsnum \<Rightarrow> jsnum" where
  "js_round (Fin a) = Fin (of_int \<lfloor>a + 1 / 2\<rfloor>)"
| "js_round x = x"

fun js_truthy :: "jsnum \<Rightarrow> bool" where
  "js_truthy (Fin a) = (a \<noteq> 0)"
| "js_truthy NaN = False"
| "js_truthy _ = True"

text \<open>
  \<open>a || b\<close> where \<open>a\<close> is an optional or nullable number (\<open>None\<close> is
  \<open>undefined\<close>/\<open>null\<close>) and where it is an optional string: the left operand is
  taken when it is truthy, so a present \<open>0\<close>, NaN or empty string yields \<open>b\<close>.
\<close>

definition num_or :: "jsnum option \<Rightarrow> jsnum \<Rightarrow> jsnum" where
  "num_or a b = (case a of None \<Rightarrow> b | Some v \<Rightarrow> if js_truthy v then v else b)"

definition str_or :: "string option \<Rightarrow> string \<Rightarrow> string" where
  "str_or a b = (case a of None \<Rightarrow> b | Some s \<Rightarrow> if s \<noteq> [] then s else b)"

section \<open>Livability calculator (server/services/livabilityCalculator.ts)\<close>

record LiveabilityMetrics =
  airQuality :: jsnum
  waterSecurity :: jsnum
  greenSpace :: jsnum

record Factor =
  weight :: jsnum
  normalizedValue :: jsnum
  contribution :: jsnum

record Factors =
  airQuality :: Factor
  waterSecurity :: Factor
  greenSpace :: Factor

record LiveabilityResult =
  airQualityScore :: jsnum
  waterSecurityScore :: jsnum
  greenSpaceScore :: jsnum
  overallScore :: jsnum
  factors :: Factors

record Weights =
  airQuality :: jsnum
  waterSecurity :: jsnum
  greenSpace :: jsnum

record Levels =
  excellent :: jsnum
  good :: jsnum
  moderate :: jsnum
  poor :: jsnum
  veryPoor :: jsnum

record ReferenceValues =
  airQuality :: Levels
  waterSecurity :: Levels
  greenSpace :: Levels

definition weights :: Weights where
  "weights = \<lparr>Weights.airQuality = Fin 0.4, Weights.waterSecurity = Fin 0.35,
              Weights.greenSpace = Fin 0.25\<rparr>"

definition referenceValues :: ReferenceValues where
  "referenceValues =
     \<lparr>ReferenceValues.airQuality =
        \<lparr>excellent = Fin 0, good = Fin 50, moderate = Fin 100, poor = Fin 200,
         veryPoor = Fin 300\<rparr>,
      ReferenceValues.waterSecurity =
        \<lparr>excellent = Fin 0, good = Fin 20, moderate = Fin 40, poor = Fin 60,
         veryPoor = Fin 80\<rparr>,
      ReferenceValues.greenSpace =
        \<lparr>excellent = Fin 80, good = Fin 60, moderate = Fin 40, poor = Fin 20,
         veryPoor = Fin 10\<rparr>\<rparr>"

definition normalizeAirQuality :: "jsnum \<Rightarrow> jsnum" where
  "normalizeAirQuality aqi =
     (if js_le aqi (excellent (ReferenceValues.airQuality referenceValues)) then Fin 100
      else if js_le aqi (good (ReferenceValues.airQuality referenceValues)) then Fin 85
      else if js_le aqi (moderate (ReferenceValues.airQuality referenceValues)) then Fin 60
      else if js_le aqi (poor (ReferenceValues.airQuality referenceValues)) then Fin 35
      else if js_le aqi (veryPoor (ReferenceValues.airQuality referenceValues)) then Fin 15
      else Fin 5)"

definition normalizeWaterSecurity :: "jsnum \<Rightarrow> jsnum" where
  "normalizeWaterSecurity stressLevel =
     (if js_le stressLevel (excellent (ReferenceValues.waterSecurity referenceValues))
        then Fin 100
      else if js_le stressLevel (good (ReferenceValues.waterSecurity referenceValues))
        then Fin 80
      else if js_le stressLevel (moderate (ReferenceValues.waterSecurity referenceValues))
        then Fin 60
      else if js_le stressLevel (poor (ReferenceValues.waterSecurity referenceValues))
        then Fin 40
      else if js_le stressLevel (veryPoor (ReferenceValues.waterSecurity referenceValues))
        then Fin 20
      else Fin 10)"

definition normalizeGreenSpace :: "jsnum \<Rightarrow> jsnum" where
  "normalizeGreenSpace coverage =
     (if js_ge coverage (excellent (ReferenceValues.greenSpace referenceValues))
        then Fin 100
      else if js_ge coverage (good (ReferenceValues.greenSpace referenceValues))
        then Fin 80
      else if js_ge coverage (moderate (ReferenceValues.greenSpace referenceValues))
        then Fin 60
      else if js_ge coverage (poor (ReferenceValues.greenSpace referenceValues))
        then Fin 40
      else if js_ge coverage (veryPoor (ReferenceValues.greenSpace referenceValues))
        then Fin 20
      else Fin 10)"

definition calculateLivabilityScore :: "LiveabilityMetrics \<Rightarrow> LiveabilityResult" where
  "calculateLivabilityScore metrics =
     (let airQualityScore = normalizeAirQuality (LiveabilityMetrics.airQuality metrics);
          waterSecurityScore =
            normalizeWaterSecurity (LiveabilityMetrics.waterSecurity metrics);
          greenSpaceScore = normalizeGreenSpace (LiveabilityMetrics.greenSpace metrics);
          airQualityContribution = js_mul airQualityScore (Weights.airQuality weights);
          waterSecurityContribution =
            js_mul waterSecurityScore (Weights.waterSecurity weights);
          greenSpaceContribution = js_mul greenSpaceScore (Weights.greenSpace weights);
          overall =
            js_round (js_add (js_add airQualityContribution waterSecurityContribution)
                        greenSpaceContribution)
      in \<lparr>airQualityScore = js_round airQualityScore,
          waterSecurityScore = js_round waterSecurityScore,
          greenSpaceScore = js_round greenSpaceScore,
          overallScore = overall,
          factors =
            \<lparr>Factors.airQuality =
               \<lparr>weight = Weights.airQuality weights,
                normalizedValue = airQualityScore,
                contribution = airQualityContribution\<rparr>,
             Factors.waterSecurity =
               \<lparr>weight = Weights.waterSecurity weights,
                normalizedValue = waterSecurityScore,
                contribution = waterSecurityContribution\<rparr>,
             Factors.greenSpace =
               \<lparr>weight = Weights.greenSpace weights,
                normalizedValue = greenSpaceScore,
                contribution = greenSpaceContribution\<rparr>\<rparr>\<rparr>)"

record Category =
  category :: string
  description :: string
  color :: string

definition getLivabilityCategory :: "jsnum \<Rightarrow> Category" where
  "getLivabilityCategory score =
     (if js_ge score (Fin 85) then
        \<lparr>category = ''Excellent'',
         description = ''Outstanding environmental conditions'',
         color = ''green''\<rparr>
      else if js_ge score (Fin 70) then
        \<lparr>category = ''Good'',
         description = ''Generally favorable environmental conditions'',
         color = ''lightgreen''\<rparr>
      else if js_ge score (Fin 55) then
        \<lparr>category = ''Moderate'',
         description = ''Acceptable environmental conditions with some concerns'',
         color = ''yellow''\<rparr>
      else if js_ge score (Fin 40) then
        \<lparr>category = ''Poor'',
         description = ''Environmental conditions need improvement'',
         color = ''orange''\<rparr>
      else
        \<lparr>category = ''Very Poor'',
         description = ''Significant environmental concerns requiring action'',
         color = ''red''\<rparr>)"


text \<open>
  \<open>generateRecommendations\<close>.  \<open>reduce\<close> without an initial value starts from the
  first factor, so the first minimum wins a tie.
\<close>

definition generateRecommendations :: "LiveabilityResult \<Rightarrow> string list" where
  "generateRecommendations result =
     (let recs = [];
          recs =
            (if js_lt (airQualityScore result) (Fin 60) then
               recs @
               [''Implement traffic reduction measures in high-pollution areas'',
                ''Increase monitoring of industrial emissions'',
                ''Promote public transportation and electric vehicle adoption'']
             else recs);
          recs =
            (if js_lt (waterSecurityScore result) (Fin 60) then
               recs @
               [''Improve water conservation and efficiency programs'',
                ''Invest in flood protection infrastructure'',
                ''Enhance groundwater monitoring and management'']
             else recs);
          recs =
            (if js_lt (greenSpaceScore result) (Fin 60) then
               recs @
               [''Expand urban parks and green corridors'',
                ''Implement green building requirements'',
                ''Create community gardens and green roofs'',
                ''Protect existing natural areas from development'']
             else recs);
          weakestFactor =
            foldl (\<lambda>m factor. if js_lt (snd factor) (snd m) then factor else m)
              (''air quality'', airQualityScore result)
              [(''water security'', waterSecurityScore result),
               (''green space'', greenSpaceScore result)]
      in if js_lt (snd weakestFactor) (Fin 50) then
           recs @ [''Priority focus needed on '' @ fst weakestFactor @ '' improvements'']
         else recs)"

section \<open>Shared schema (shared/schema.ts)\<close>

text \<open>
  A \<open>jsonb\<close> value.  A \<open>timestamp\<close> is the number of milliseconds since the epoch.
  The column \<open>id\<close> is named \<open>id'\<close> here.  A nullable column is an \<open>option\<close>.
\<close>

datatype json =
  JNull | JBool bool | JNum real | JStr string | JArr "json list"
  | JObj "(string \<times> json) list"

record AirQualityData =
  id' :: string
  latitude :: jsnum
  longitude :: jsnum
  aqi :: jsnum
  pm25 :: "jsnum option"
  pm10 :: "jsnum option"
  ozone :: "jsnum option"
  no2 :: "jsnum option"
  so2 :: "jsnum option"
  source :: string
  timestamp :: int
  metadata :: "json option"

record WaterSecurityData =
  id' :: string
  latitude :: jsnum
  longitude :: jsnum
  waterStressLevel :: jsnum
  precipitationLevel :: "jsnum option"
  groundwaterLevel :: "jsnum option"
  floodRisk :: "jsnum option"
  source :: string
  timestamp :: int
  metadata :: "json option"

record GreenSpaceData =
  id' :: string
  latitude :: jsnum
  longitude :: jsnum
  ndvi :: jsnum
  vegetationCoverage :: "jsnum option"
  greenSpaceType :: "string option"
  source :: string
  timestamp :: int
  metadata :: "json option"

text \<open>
  The insert types omit \<open>id\<close> and \<open>timestamp\<close>, which the database generates; the
  row types extend them by these two columns.
\<close>

record InsertLivabilityScore =
  latitude :: jsnum
  longitude :: jsnum
  airQualityScore :: jsnum
  waterSecurityScore :: jsnum
  greenSpaceScore :: jsnum
  overallScore :: jsnum
  location :: "string option"

record LiveabilityScore = InsertLivabilityScore +
  id' :: string
  timestamp :: int

record InsertEnvironmentalAlert =
  type :: string
  category :: string
  title :: string
  message :: string
  latitude :: "jsnum option"
  longitude :: "jsnum option"
  location :: "string option"
  severity :: jsnum
  isActive :: bool
  actionable :: bool
  recommendations :: json

record EnvironmentalAlert = InsertEnvironmentalAlert +
  id' :: string
  timestamp :: int

section \<open>The host: built-ins and the external text-generation service\<close>

text \<open>
  What the code takes from its environment is a parameter of the model:
  \<^item> \<open>toFixed x n\<close> is \<open>x.toFixed(n)\<close>, \<open>toString x\<close> the text of \<open>x\<close> inside a
    template literal, \<open>parseFloat s\<close> the built-in of that name;
  \<^item> \<open>openaiAirQuality d s\<close> (and its two siblings) is the \<open>try\<close> block of
    \<open>generateAirQualityRecommendations\<close>: the prompt built from the reading \<open>d\<close> and
    the severity \<open>s\<close>, the chat completion and \<open>JSON.parse\<close> of the reply.  \<open>Some j\<close>
    is the parsed reply, \<open>None\<close> any exception (network error, malformed reply).
\<close>

datatype Severity = Warning | Danger

record Host =
  toFixed :: "jsnum \<Rightarrow> nat \<Rightarrow> string"
  toString :: "jsnum \<Rightarrow> string"
  parseFloat :: "string \<Rightarrow> jsnum"
  openaiAirQuality :: "AirQualityData \<Rightarrow> Severity \<Rightarrow> json option"
  openaiWaterSecurity :: "WaterSecurityData \<Rightarrow> Severity \<Rightarrow> json option"
  openaiGreenSpace :: "GreenSpaceData \<Rightarrow> Severity \<Rightarrow> json option"

datatype JsError = TypeError

section \<open>Alert service (server/services/alertService.ts)\<close>

record Threshold =
  warning :: jsnum
  danger :: jsnum

record AlertThresholds =
  airQuality :: Threshold
  waterSecurity :: Threshold
  greenSpace :: Threshold
  floodRisk :: Threshold

record EnvironmentalData =
  airQuality :: "AirQualityData list option"
  waterSecurity :: "WaterSecurityData list option"
  greenSpace :: "GreenSpaceData list option"
  location :: "string option"
  latitude :: "jsnum option"
  longitude :: "jsnum option"

text \<open>
  The initial value of the private field \<open>thresholds\<close>.  The analysis functions read
  \<open>this.thresholds\<close>, which \<open>updateThresholds\<close> can overwrite, so they take the
  thresholds as an argument; nothing in the repository calls \<open>updateThresholds\<close>.
\<close>

definition thresholds :: AlertThresholds where
  "thresholds =
     \<lparr>AlertThresholds.airQuality = \<lparr>warning = Fin 100, danger = Fin 150\<rparr>,
      AlertThresholds.waterSecurity = \<lparr>warning = Fin 60, danger = Fin 80\<rparr>,
      AlertThresholds.greenSpace = \<lparr>warning = Fin 30, danger = Fin 15\<rparr>,
      AlertThresholds.floodRisk = \<lparr>warning = Fin 40, danger = Fin 70\<rparr>\<rparr>"

definition generateAirQualityRecommendations ::
  "Host \<Rightarrow> AirQualityData \<Rightarrow> Severity \<Rightarrow> json" where
  "generateAirQualityRecommendations h data sev =
     (case openaiAirQuality h data sev of
        Some reply \<Rightarrow> reply
      | None \<Rightarrow>
          JObj [(''immediate'',
                  JArr [JStr ''Limit outdoor activities'', JStr ''Close windows'',
                        JStr ''Use air purifiers'']),
                (''shortTerm'',
                  JArr [JStr ''Monitor air quality daily'',
                        JStr ''Report to environmental authorities'']),
                (''longTerm'',
                  JArr [JStr ''Support clean air initiatives'',
                        JStr ''Reduce vehicle emissions''])])"

definition generateWaterSecurityRecommendations ::
  "Host \<Rightarrow> WaterSecurityData \<Rightarrow> Severity \<Rightarrow> json" where
  "generateWaterSecurityRecommendations h data sev =
     (case openaiWaterSecurity h data sev of
        Some reply \<Rightarrow> reply
      | None \<Rightarrow>
          JObj [(''conservation'',
                  JArr [JStr ''Reduce water usage'', JStr ''Fix leaks promptly'',
                        JStr ''Install water-efficient fixtures'']),
                (''infrastructure'',
                  JArr [JStr ''Improve water storage'',
                        JStr ''Upgrade distribution systems'']),
                (''emergency'',
                  JArr [JStr ''Prepare water reserves'',
                        JStr ''Monitor supply levels''])])"

definition generateGreenSpaceRecommendations ::
  "Host \<Rightarrow> GreenSpaceData \<Rightarrow> Severity \<Rightarrow> json" where
  "generateGreenSpaceRecommendations h data sev =
     (case openaiGreenSpace h data sev of
        Some reply \<Rightarrow> reply
      | None \<Rightarrow>
          JObj [(''planning'',
                  JArr [JStr ''Increase park space'', JStr ''Create green corridors'',
                        JStr ''Mandate green building standards'']),
                (''community'',
                  JArr [JStr ''Start community gardens'', JStr ''Plant street trees'',
                        JStr ''Create green roofs'']),
                (''policy'',
                  JArr [JStr ''Protect existing green space'',
                        JStr ''Require environmental impact assessments''])])"

text \<open>
  \<open>analyzeAirQuality\<close>.  \<open>airData[0]\<close> of an empty array is \<open>undefined\<close> and the read
  of its \<open>aqi\<close> throws a TypeError, which rejects the promise: the result is a sum.
\<close>

definition analyzeAirQuality ::
  "Host \<Rightarrow> AlertThresholds \<Rightarrow> AirQualityData list \<Rightarrow> EnvironmentalData
     \<Rightarrow> JsError + InsertEnvironmentalAlert list" where
  "analyzeAirQuality h th airData context =
     (if airData = [] then Inl TypeError
      else
        let latest = airData ! 0;
            alerts =
              (if js_ge (aqi latest) (danger (AlertThresholds.airQuality th)) then
                 let recommendations = generateAirQualityRecommendations h latest Danger
                 in [\<lparr>type = ''danger'',
                      InsertEnvironmentalAlert.category = ''air_quality'',
                      title = ''Unhealthy Air Quality Detected'',
                      message = ''AQI level of '' @ toString h (aqi latest) @
                        '' exceeds safe limits. Immediate action recommended for sensitive individuals.'',
                      InsertEnvironmentalAlert.latitude =
                        Some (num_or (EnvironmentalData.latitude context)
                                (AirQualityData.latitude latest)),
                      InsertEnvironmentalAlert.longitude =
                        Some (num_or (EnvironmentalData.longitude context)
                                (AirQualityData.longitude latest)),
                      InsertEnvironmentalAlert.location =
                        Some (str_or (EnvironmentalData.location context)
                                (toFixed h (AirQualityData.latitude latest) 3 @ '', '' @
                                 toFixed h (AirQualityData.longitude latest) 3)),
                      severity =
                        js_min (Fin 100)
                          (js_mul (js_div (aqi latest)
                                     (danger (AlertThresholds.airQuality th))) (Fin 70)),
                      isActive = True,
                      actionable = True,
                      recommendations = recommendations\<rparr>]
               else if js_ge (aqi latest) (warning (AlertThresholds.airQuality th)) then
                 let recommendations = generateAirQualityRecommendations h latest Warning
                 in [\<lparr>type = ''warning'',
                      InsertEnvironmentalAlert.category = ''air_quality'',
                      title = ''Moderate Air Quality Alert'',
                      message = ''AQI level of '' @ toString h (aqi latest) @
                        '' may affect sensitive individuals. Consider limiting outdoor activities.'',
                      InsertEnvironmentalAlert.latitude =
                        Some (num_or (EnvironmentalData.latitude context)
                                (AirQualityData.latitude latest)),
                      InsertEnvironmentalAlert.longitude =
                        Some (num_or (EnvironmentalData.longitude context)
                                (AirQualityData.longitude latest)),
                      InsertEnvironmentalAlert.location =
                        Some (str_or (EnvironmentalData.location context)
                                (toFixed h (AirQualityData.latitude latest) 3 @ '', '' @
                                 toFixed h (AirQualityData.longitude latest) 3)),
                      severity =
                        js_min (Fin 100)
                          (js_mul (js_div (aqi latest)
                                     (warning (AlertThresholds.airQuality th))) (Fin 50)),
                      isActive = True,
                      actionable = True,
                      recommendations = recommendations\<rparr>]
               else []);
            alerts =
              (if 2 \<le> length airData then
                 let previous = airData ! 1;
                     aqiChange = js_sub (aqi latest) (aqi previous)
                 in if js_gt aqiChange (Fin 50) then
                      alerts @
                      [\<lparr>type = ''warning'',
                        InsertEnvironmentalAlert.category = ''air_quality'',
                        title = ''Rapid Air Quality Deterioration'',
                        message = ''Air quality index increased by '' @ toString h aqiChange @
                          '' points in the last reading. Monitor conditions closely.'',
                        InsertEnvironmentalAlert.latitude =
                          Some (num_or (EnvironmentalData.latitude context)
                                  (AirQualityData.latitude latest)),
                        InsertEnvironmentalAlert.longitude =
                          Some (num_or (EnvironmentalData.longitude context)
                                  (AirQualityData.longitude latest)),
                        InsertEnvironmentalAlert.location =
                          Some (str_or (EnvironmentalData.location context)
                                  (toFixed h (AirQualityData.latitude latest) 3 @ '', '' @
                                   toFixed h (AirQualityData.longitude latest) 3)),
                        severity =
                          js_min (Fin 100) (js_mul (js_div aqiChange (Fin 50)) (Fin 40)),
                        isActive = True,
                        actionable = True,
                        recommendations =
                          JObj [(''trend'', JStr ''deteriorating''),
                                (''actions'',
                                  JArr [JStr ''Monitor air quality frequently'',
                                        JStr ''Prepare for potential restrictions''])]\<rparr>]
                    else alerts
               else alerts)
        in Inr alerts)"

text \<open>
  \<open>analyzeWaterSecurity\<close>.  The two flood-risk conditions are
  \<open>latest.floodRisk && latest.floodRisk >= t\<close>: false for a missing flood risk, for 0
  and for NaN.
\<close>

definition analyzeWaterSecurity ::
  "Host \<Rightarrow> AlertThresholds \<Rightarrow> WaterSecurityData list \<Rightarrow> EnvironmentalData
     \<Rightarrow> JsError + InsertEnvironmentalAlert list" where
  "analyzeWaterSecurity h th waterData context =
     (if waterData = [] then Inl TypeError
      else
        let latest = waterData ! 0;
            alerts =
              (if js_ge (waterStressLevel latest)
                    (danger (AlertThresholds.waterSecurity th)) then
                 let recommendations =
                       generateWaterSecurityRecommendations h latest Danger
                 in [\<lparr>type = ''danger'',
                      InsertEnvironmentalAlert.category = ''water_security'',
                      title = ''Critical Water Stress Level'',
                      message = ''Water stress at '' @
                        toFixed h (waterStressLevel latest) 1 @
                        ''% indicates severe water scarcity risk.'',
                      InsertEnvironmentalAlert.latitude =
                        Some (num_or (EnvironmentalData.latitude context)
                                (WaterSecurityData.latitude latest)),
                      InsertEnvironmentalAlert.longitude =
                        Some (num_or (EnvironmentalData.longitude context)
                                (WaterSecurityData.longitude latest)),
                      InsertEnvironmentalAlert.location =
                        Some (str_or (EnvironmentalData.location context)
                                (toFixed h (WaterSecurityData.latitude latest) 3 @ '', '' @
                                 toFixed h (WaterSecurityData.longitude latest) 3)),
                      severity =
                        js_min (Fin 100)
                          (js_mul (js_div (waterStressLevel latest) (Fin 100)) (Fin 80)),
                      isActive = True,
                      actionable = True,
                      recommendations = recommendations\<rparr>]
               else if js_ge (waterStressLevel latest)
                         (warning (AlertThresholds.waterSecurity th)) then
                 let recommendations =
                       generateWaterSecurityRecommendations h latest Warning
                 in [\<lparr>type = ''warning'',
                      InsertEnvironmentalAlert.category = ''water_security'',
                      title = ''Elevated Water Stress'',
                      message = ''Water stress level of '' @
                        toFixed h (waterStressLevel latest) 1 @
                        ''% requires conservation measures.'',
                      InsertEnvironmentalAlert.latitude =
                        Some (num_or (EnvironmentalData.latitude context)
                                (WaterSecurityData.latitude latest)),
                      InsertEnvironmentalAlert.longitude =
                        Some (num_or (EnvironmentalData.longitude context)
                                (WaterSecurityData.longitude latest)),
                      InsertEnvironmentalAlert.location =
                        Some (str_or (EnvironmentalData.location context)
                                (toFixed h (WaterSecurityData.latitude latest) 3 @ '', '' @
                                 toFixed h (WaterSecurityData.longitude latest) 3)),
                      severity =
                        js_min (Fin 100)
                          (js_mul (js_div (waterStressLevel latest) (Fin 100)) (Fin 60)),
                      isActive = True,
                      actionable = True,
                      recommendations = recommendations\<rparr>]
               else []);
            alerts =
              (case WaterSecurityData.floodRisk latest of
                 None \<Rightarrow> alerts
               | Some risk \<Rightarrow>
                   if js_truthy risk \<and> js_ge risk (danger (AlertThresholds.floodRisk th))
                   then
                     alerts @
                     [\<lparr>type = ''danger'',
                       InsertEnvironmentalAlert.category = ''water_security'',
                       title = ''High Flood Risk Alert'',
                       message = ''Flood risk at '' @ toFixed h risk 1 @
                         ''% indicates potential flooding conditions.'',
                       InsertEnvironmentalAlert.latitude =
                         Some (num_or (EnvironmentalData.latitude context)
                                 (WaterSecurityData.latitude latest)),
                       InsertEnvironmentalAlert.longitude =
                         Some (num_or (EnvironmentalData.longitude context)
                                 (WaterSecurityData.longitude latest)),
                       InsertEnvironmentalAlert.location =
                         Some (str_or (EnvironmentalData.location context)
                                 (toFixed h (WaterSecurityData.latitude latest) 3 @ '', '' @
                                  toFixed h (WaterSecurityData.longitude latest) 3)),
                       severity =
                         js_min (Fin 100) (js_mul (js_div risk (Fin 100)) (Fin 75)),
                       isActive = True,
                       actionable = True,
                       recommendations =
                         JObj [(''emergency'', JBool True),
                               (''actions'',
                                 JArr [JStr ''Monitor weather conditions'',
                                       JStr ''Prepare evacuation routes'',
                                       JStr ''Secure property''])]\<rparr>]
                   else if js_truthy risk
                           \<and> js_ge risk (warning (AlertThresholds.floodRisk th))
                   then
                     alerts @
                     [\<lparr>type = ''warning'',
                       InsertEnvironmentalAlert.category = ''water_security'',
                       title = ''Moderate Flood Risk'',
                       message = ''Flood risk at '' @ toFixed h risk 1 @
                         ''% warrants preparation measures.'',
                       InsertEnvironmentalAlert.latitude =
                         Some (num_or (EnvironmentalData.latitude context)
                                 (WaterSecurityData.latitude latest)),
                       InsertEnvironmentalAlert.longitude =
                         Some (num_or (EnvironmentalData.longitude context)
                                 (WaterSecurityData.longitude latest)),
                       InsertEnvironmentalAlert.location =
                         Some (str_or (EnvironmentalData.location context)
                                 (toFixed h (WaterSecurityData.latitude latest) 3 @ '', '' @
                                  toFixed h (WaterSecurityData.longitude latest) 3)),
                       severity =
                         js_min (Fin 100) (js_mul (js_div risk (Fin 100)) (Fin 50)),
                       isActive = True,
                       actionable = True,
                       recommendations =
                         JObj [(''preparedness'', JBool True),
                               (''actions'',
                                 JArr [JStr ''Review emergency plans'',
                                       JStr ''Check drainage systems''])]\<rparr>]
                   else alerts)
        in Inr alerts)"

text \<open>
  \<open>analyzeGreenSpace\<close>.  \<open>vegCoverage\<close> is its local constant of that name,
  \<open>latest.vegetationCoverage || (latest.ndvi * 100)\<close>.
\<close>

definition vegCoverage :: "GreenSpaceData \<Rightarrow> jsnum" where
  "vegCoverage latest = num_or (vegetationCoverage latest) (js_mul (ndvi latest) (Fin 100))"

definition analyzeGreenSpace ::
  "Host \<Rightarrow> AlertThresholds \<Rightarrow> GreenSpaceData list \<Rightarrow> EnvironmentalData
     \<Rightarrow> JsError + InsertEnvironmentalAlert list" where
  "analyzeGreenSpace h th greenData context =
     (if greenData = [] then Inl TypeError
      else
        let latest = greenData ! 0;
            alerts =
              (if js_le (vegCoverage latest) (danger (AlertThresholds.greenSpace th)) then
                 let recommendations = generateGreenSpaceRecommendations h latest Danger
                 in [\<lparr>type = ''danger'',
                      InsertEnvironmentalAlert.category = ''green_space'',
                      title = ''Critical Green Space Deficiency'',
                      message = ''Vegetation coverage at '' @
                        toFixed h (vegCoverage latest) 1 @
                        ''% is critically low and affects air quality and livability.'',
                      InsertEnvironmentalAlert.latitude =
                        Some (num_or (EnvironmentalData.latitude context)
                                (GreenSpaceData.latitude latest)),
                      InsertEnvironmentalAlert.longitude =
                        Some (num_or (EnvironmentalData.longitude context)
                                (GreenSpaceData.longitude latest)),
                      InsertEnvironmentalAlert.location =
                        Some (str_or (EnvironmentalData.location context)
                                (toFixed h (GreenSpaceData.latitude latest) 3 @ '', '' @
                                 toFixed h (GreenSpaceData.longitude latest) 3)),
                      severity =
                        js_min (Fin 100)
                          (js_mul
                             (js_div
                                (js_sub (danger (AlertThresholds.greenSpace th))
                                   (vegCoverage latest))
                                (danger (AlertThresholds.greenSpace th)))
                             (Fin 70)),
                      isActive = True,
                      actionable = True,
                      recommendations = recommendations\<rparr>]
               else if js_le (vegCoverage latest)
                         (warning (AlertThresholds.greenSpace th)) then
                 let recommendations = generateGreenSpaceRecommendations h latest Warning
                 in [\<lparr>type = ''warning'',
                      InsertEnvironmentalAlert.category = ''green_space'',
                      title = ''Low Green Space Coverage'',
                      message = ''Vegetation coverage at '' @
                        toFixed h (vegCoverage latest) 1 @
                        ''% is below recommended levels for urban areas.'',
                      InsertEnvironmentalAlert.latitude =
                        Some (num_or (EnvironmentalData.latitude context)
                                (GreenSpaceData.latitude latest)),
                      InsertEnvironmentalAlert.longitude =
                        Some (num_or (EnvironmentalData.longitude context)
                                (GreenSpaceData.longitude latest)),
                      InsertEnvironmentalAlert.location =
                        Some (str_or (EnvironmentalData.location context)
                                (toFixed h (GreenSpaceData.latitude latest) 3 @ '', '' @
                                 toFixed h (GreenSpaceData.longitude latest) 3)),
                      severity =
                        js_min (Fin 100)
                          (js_mul
                             (js_div
                                (js_sub (warning (AlertThresholds.greenSpace th))
                                   (vegCoverage latest))
                                (warning (AlertThresholds.greenSpace th)))
                             (Fin 50)),
                      isActive = True,
                      actionable = True,
                      recommendations = recommendations\<rparr>]
               else [])
        in Inr alerts)"

text \<open>
  \<open>generateAlerts\<close>: each category is analysed when its array is present and
  non-empty; a rejected analysis rejects the whole call.
\<close>

definition generateAlerts ::
  "Host \<Rightarrow> AlertThresholds \<Rightarrow> EnvironmentalData
     \<Rightarrow> JsError + InsertEnvironmentalAlert list" where
  "generateAlerts h th data =
     (case (case EnvironmentalData.airQuality data of
              Some airData \<Rightarrow>
                if 0 < length airData then analyzeAirQuality h th airData data
                else Inr []
            | None \<Rightarrow> Inr []) of
        Inl e \<Rightarrow> Inl e
      | Inr airAlerts \<Rightarrow>
          (case (case EnvironmentalData.waterSecurity data of
                   Some waterData \<Rightarrow>
                     if 0 < length waterData
                     then analyzeWaterSecurity h th waterData data
                     else Inr []
                 | None \<Rightarrow> Inr []) of
             Inl e \<Rightarrow> Inl e
           | Inr waterAlerts \<Rightarrow>
               (case (case EnvironmentalData.greenSpace data of
                        Some greenData \<Rightarrow>
                          if 0 < length greenData
                          then analyzeGreenSpace h th greenData data
                          else Inr []
                      | None \<Rightarrow> Inr []) of
                  Inl e \<Rightarrow> Inl e
                | Inr greenAlerts \<Rightarrow>
                    Inr ((([] @ airAlerts) @ waterAlerts) @ greenAlerts))))"

section \<open>Storage (server/storage.ts)\<close>

text \<open>
  The database is a state: one list of rows per table, in insertion order (the legacy
  \<open>users\<close> table is left out).  A row holds each number as the server reads it.  The
  values the database generates for a new row, its \<open>id\<close> and its \<open>timestamp\<close>, are
  arguments of the insert functions; the other columns of the new row are the numbers
  given.  A failing database (a lost connection, a rejected query) is not modelled.
\<close>

record Database =
  airQualityData :: "AirQualityData list"
  waterSecurityData :: "WaterSecurityData list"
  greenSpaceData :: "GreenSpaceData list"
  livabilityScores :: "LiveabilityScore list"
  environmentalAlerts :: "EnvironmentalAlert list"

definition insertLivabilityScore ::
  "Database \<Rightarrow> string \<Rightarrow> int \<Rightarrow> InsertLivabilityScore
     \<Rightarrow> LiveabilityScore \<times> Database" where
  "insertLivabilityScore db newId dbNow score =
     (let result = InsertLivabilityScore.extend score (LiveabilityScore.fields newId dbNow)
      in (result, db\<lparr>livabilityScores := livabilityScores db @ [result]\<rparr>))"

definition insertEnvironmentalAlert ::
  "Database \<Rightarrow> string \<Rightarrow> int \<Rightarrow> InsertEnvironmentalAlert
     \<Rightarrow> EnvironmentalAlert \<times> Database" where
  "insertEnvironmentalAlert db newId dbNow alert =
     (let result =
            InsertEnvironmentalAlert.extend alert (EnvironmentalAlert.fields newId dbNow)
      in (result, db\<lparr>environmentalAlerts := environmentalAlerts db @ [result]\<rparr>))"

subsection \<open>Single precision\<close>

text \<open>
  The numeric columns are \<open>real\<close>, PostgreSQL's four-byte \<open>float4\<close>, and a number
  compared with such a column is taken as a \<open>float4\<close> too.  \<open>float4\<close> is the rounding
  of a number to IEEE 754 single precision, to the nearest value with ties to the even
  significand: a number with binary exponent \<open>e\<close> (at least \<open>-126\<close>, which covers the
  subnormal numbers) is rounded to a multiple of 2 to the power \<open>e - 23\<close>.  A magnitude
  beyond the largest single-precision number is rounded in the same way; the database
  rejects such a value, a failure that the model leaves out.
\<close>

definition round_half_even :: "real \<Rightarrow> int" where
  "round_half_even t =
     (let n = \<lfloor>t\<rfloor>; r = t - of_int n
      in if r < 1 / 2 then n else if 1 / 2 < r then n + 1
         else if even n then n else n + 1)"

definition float4_exponent :: "real \<Rightarrow> int" where
  "float4_exponent x = max \<lfloor>log 2 \<bar>x\<bar>\<rfloor> (- 126)"

definition float4_of_real :: "real \<Rightarrow> real" where
  "float4_of_real x =
     (if x = 0 then 0
      else let q = 2 powr of_int (float4_exponent x - 23)
           in of_int (round_half_even (x / q)) * q)"

fun float4 :: "jsnum \<Rightarrow> jsnum" where
  "float4 (Fin x) = Fin (float4_of_real x)"
| "float4 v = v"

text \<open>
  PostgreSQL's order on floating-point values: as the numeric order, except that NaN is
  equal to itself and greater than every other value.
\<close>

definition pg_le :: "jsnum \<Rightarrow> jsnum \<Rightarrow> bool" where
  "pg_le a b = (if a = NaN then b = NaN else if b = NaN then True else js_le a b)"

definition pg_ge :: "jsnum \<Rightarrow> jsnum \<Rightarrow> bool" where
  "pg_ge a b = pg_le b a"

subsection \<open>Queries\<close>

text \<open>
  The bounding-box queries.  Each bound is computed by the server (\<open>lat - radius\<close>) and
  compared by the database, in single precision, with the column.
  \<open>orderBy(desc(timestamp))\<close> is a stable sort, so rows of equal timestamp stay in
  insertion order (SQL leaves their order open).  The default of the parameter
  \<open>radius\<close> applies when the argument is missing (\<open>None\<close>).
\<close>

definition getAirQualityDataByLocation ::
  "Database \<Rightarrow> jsnum \<Rightarrow> jsnum \<Rightarrow> jsnum option \<Rightarrow> AirQualityData list" where
  "getAirQualityDataByLocation db lat lon radiusArg =
     (let radius = (case radiusArg of None \<Rightarrow> Fin 0.1 | Some r \<Rightarrow> r)
      in sort_key (\<lambda>d. - AirQualityData.timestamp d)
           (filter
              (\<lambda>d. pg_ge (float4 (AirQualityData.latitude d)) (float4 (js_sub lat radius))
                 \<and> pg_le (float4 (AirQualityData.latitude d)) (float4 (js_add lat radius))
                 \<and> pg_ge (float4 (AirQualityData.longitude d))
                      (float4 (js_sub lon radius))
                 \<and> pg_le (float4 (AirQualityData.longitude d))
                      (float4 (js_add lon radius)))
              (airQualityData db)))"

definition getWaterSecurityDataByLocation ::
  "Database \<Rightarrow> jsnum \<Rightarrow> jsnum \<Rightarrow> jsnum option \<Rightarrow> WaterSecurityData list" where
  "getWaterSecurityDataByLocation db lat lon radiusArg =
     (let radius = (case radiusArg of None \<Rightarrow> Fin 0.1 | Some r \<Rightarrow> r)
      in sort_key (\<lambda>d. - WaterSecurityData.timestamp d)
           (filter
              (\<lambda>d. pg_ge (float4 (WaterSecurityData.latitude d))
                      (float4 (js_sub lat radius))
                 \<and> pg_le (float4 (WaterSecurityData.latitude d))
                      (float4 (js_add lat radius))
                 \<and> pg_ge (float4 (WaterSecurityData.longitude d))
                      (float4 (js_sub lon radius))
                 \<and> pg_le (float4 (WaterSecurityData.longitude d))
                      (float4 (js_add lon radius)))
              (waterSecurityData db)))"

definition getGreenSpaceDataByLocation ::
  "Database \<Rightarrow> jsnum \<Rightarrow> jsnum \<Rightarrow> jsnum option \<Rightarrow> GreenSpaceData list" where
  "getGreenSpaceDataByLocation db lat lon radiusArg =
     (let radius = (case radiusArg of None \<Rightarrow> Fin 0.1 | Some r \<Rightarrow> r)
      in sort_key (\<lambda>d. - GreenSpaceData.timestamp d)
           (filter
              (\<lambda>d. pg_ge (float4 (GreenSpaceData.latitude d)) (float4 (js_sub lat radius))
                 \<and> pg_le (float4 (GreenSpaceData.latitude d)) (float4 (js_add lat radius))
                 \<and> pg_ge (float4 (GreenSpaceData.longitude d))
                      (float4 (js_sub lon radius))
                 \<and> pg_le (float4 (GreenSpaceData.longitude d))
                      (float4 (js_add lon radius)))
              (greenSpaceData db)))"

text \<open>
  \<open>getRecentEnvironmentalData\<close>.  \<open>now\<close> is the value of \<open>new Date()\<close>; the cutoff
  lies \<open>hours\<close> hours (of 3600000 ms) before it (\<open>setHours\<close> works on local time; a
  daylight-saving shift inside the window is not modelled).
\<close>

record RecentEnvironmentalData =
  airQuality :: "AirQualityData list"
  waterSecurity :: "WaterSecurityData list"
  greenSpace :: "GreenSpaceData list"

definition getRecentEnvironmentalData ::
  "Database \<Rightarrow> int \<Rightarrow> jsnum \<Rightarrow> jsnum \<Rightarrow> int option \<Rightarrow> RecentEnvironmentalData" where
  "getRecentEnvironmentalData db now lat lon hoursArg =
     (let hours = (case hoursArg of None \<Rightarrow> 24 | Some n \<Rightarrow> n);
          cutoffTime = now - hours * 3600000;
          airQuality = getAirQualityDataByLocation db lat lon None;
          waterSecurity = getWaterSecurityDataByLocation db lat lon None;
          greenSpace = getGreenSpaceDataByLocation db lat lon None
      in \<lparr>RecentEnvironmentalData.airQuality =
            filter (\<lambda>d. cutoffTime \<le> AirQualityData.timestamp d) airQuality,
          RecentEnvironmentalData.waterSecurity =
            filter (\<lambda>d. cutoffTime \<le> WaterSecurityData.timestamp d) waterSecurity,
          RecentEnvironmentalData.greenSpace =
            filter (\<lambda>d. cutoffTime \<le> GreenSpaceData.timestamp d) greenSpace\<rparr>)"

section \<open>Routes (server/routes.ts)\<close>

text \<open>
  A handler takes the database and the request and returns the response and the
  database after the request.  \<open>res.json\<close> without \<open>res.status\<close> answers 200.  The
  \<open>catch\<close> branches (status 500) are not reached: no operation of the model throws.
\<close>

datatype Body =
  Error string
  | Livability LiveabilityResult Category "string list" string int
  | Dismissed bool string

record Response =
  status :: nat
  body :: Body

record LivabilityRequest =
  params_lat :: string
  params_lon :: string
  query_location :: "string option"

text \<open>
  \<open>GET /api/livability/:lat/:lon\<close>.  \<open>now\<close> is the server's clock, \<open>newId\<close> and
  \<open>dbNow\<close> are the id and timestamp the database gives the stored score.
\<close>

definition livabilityHandler ::
  "Host \<Rightarrow> int \<Rightarrow> string \<Rightarrow> int \<Rightarrow> Database \<Rightarrow> LivabilityRequest
     \<Rightarrow> Response \<times> Database" where
  "livabilityHandler h now newId dbNow db req =
     (let lat = parseFloat h (params_lat req);
          lon = parseFloat h (params_lon req)
      in if lat = NaN \<or> lon = NaN then
           (\<lparr>status = 400, body = Error ''Invalid coordinates''\<rparr>, db)
         else
           let envData = getRecentEnvironmentalData db now lat lon (Some 24)
           in if length (RecentEnvironmentalData.airQuality envData) = 0
                 \<or> length (RecentEnvironmentalData.waterSecurity envData) = 0
                 \<or> length (RecentEnvironmentalData.greenSpace envData) = 0 then
                (\<lparr>status = 404,
                  body = Error ''Insufficient environmental data for livability calculation''\<rparr>,
                 db)
              else
                let avgAirQuality =
                      js_div
                        (foldl (\<lambda>sum d. js_add sum (aqi d)) (Fin 0)
                           (RecentEnvironmentalData.airQuality envData))
                        (Fin (real (length (RecentEnvironmentalData.airQuality envData))));
                    avgWaterStress =
                      js_div
                        (foldl (\<lambda>sum d. js_add sum (waterStressLevel d)) (Fin 0)
                           (RecentEnvironmentalData.waterSecurity envData))
                        (Fin (real (length (RecentEnvironmentalData.waterSecurity envData))));
                    avgGreenSpace =
                      js_div
                        (foldl
                           (\<lambda>sum d.
                              js_add sum
                                (num_or (vegetationCoverage d) (js_mul (ndvi d) (Fin 100))))
                           (Fin 0) (RecentEnvironmentalData.greenSpace envData))
                        (Fin (real (length (RecentEnvironmentalData.greenSpace envData))));
                    livabilityResult =
                      calculateLivabilityScore
                        \<lparr>LiveabilityMetrics.airQuality = avgAirQuality,
                         LiveabilityMetrics.waterSecurity = avgWaterStress,
                         LiveabilityMetrics.greenSpace = avgGreenSpace\<rparr>;
                    stored =
                      insertLivabilityScore db newId dbNow
                        \<lparr>InsertLivabilityScore.latitude = lat,
                         InsertLivabilityScore.longitude = lon,
                         InsertLivabilityScore.airQualityScore =
                           LiveabilityResult.airQualityScore livabilityResult,
                         InsertLivabilityScore.waterSecurityScore =
                           LiveabilityResult.waterSecurityScore livabilityResult,
                         InsertLivabilityScore.greenSpaceScore =
                           LiveabilityResult.greenSpaceScore livabilityResult,
                         InsertLivabilityScore.overallScore =
                           LiveabilityResult.overallScore livabilityResult,
                         InsertLivabilityScore.location =
                           Some (str_or (query_location req)
                                   (toFixed h lat 3 @ '', '' @ toFixed h lon 3))\<rparr>;
                    storedScore = fst stored
                in (\<lparr>status = 200,
                     body =
                       Livability livabilityResult
                         (getLivabilityCategory
                            (LiveabilityResult.overallScore livabilityResult))
                         (generateRecommendations livabilityResult)
                         (LiveabilityScore.id' storedScore)
                         (LiveabilityScore.timestamp storedScore)\<rparr>,
                    snd stored))"

text \<open>
  \<open>PATCH /api/alerts/:id/dismiss\<close>: the body of the handler is one \<open>res.json\<close>; no
  storage function is called.
\<close>

definition dismissAlertHandler :: "Database \<Rightarrow> string \<Rightarrow> Response \<times> Database" where
  "dismissAlertHandler db params_id =
     (\<lparr>status = 200, body = Dismissed True ''Alert dismissed''\<rparr>, db)"

section \<open>Example data\<close>

text \<open>
  A host whose text-generation service always fails (so the static recommendations are
  used), one reading of each category at (10, 10), and two databases: an empty one and
  one holding the three readings.
\<close>

definition exampleHost :: Host where
  "exampleHost =
     \<lparr>toFixed = (\<lambda>x n. ''10.000''),
      toString = (\<lambda>x. ''160''),
      parseFloat = (\<lambda>s. if s = ''10'' then Fin 10 else NaN),
      openaiAirQuality = (\<lambda>d s. None),
      openaiWaterSecurity = (\<lambda>d s. None),
      openaiGreenSpace = (\<lambda>d s. None)\<rparr>"

definition exampleAir :: "jsnum \<Rightarrow> int \<Rightarrow> AirQualityData" where
  "exampleAir a t =
     \<lparr>AirQualityData.id' = ''air'', AirQualityData.latitude = Fin 10,
      AirQualityData.longitude = Fin 10, aqi = a, pm25 = None, pm10 = None,
      ozone = None, no2 = None, so2 = None, AirQualityData.source = ''nasa_omi'',
      AirQualityData.timestamp = t, AirQualityData.metadata = None\<rparr>"

definition exampleWater :: "jsnum \<Rightarrow> jsnum option \<Rightarrow> int \<Rightarrow> WaterSecurityData" where
  "exampleWater w f t =
     \<lparr>WaterSecurityData.id' = ''water'', WaterSecurityData.latitude = Fin 10,
      WaterSecurityData.longitude = Fin 10, waterStressLevel = w,
      precipitationLevel = None, groundwaterLevel = None,
      WaterSecurityData.floodRisk = f, WaterSecurityData.source = ''nasa_grace'',
      WaterSecurityData.timestamp = t, WaterSecurityData.metadata = None\<rparr>"

definition exampleGreen :: "jsnum \<Rightarrow> jsnum option \<Rightarrow> int \<Rightarrow> GreenSpaceData" where
  "exampleGreen n v t =
     \<lparr>GreenSpaceData.id' = ''green'', GreenSpaceData.latitude = Fin 10,
      GreenSpaceData.longitude = Fin 10, ndvi = n, vegetationCoverage = v,
      greenSpaceType = None, GreenSpaceData.source = ''nasa_modis'',
      GreenSpaceData.timestamp = t, GreenSpaceData.metadata = None\<rparr>"

definition emptyDatabase :: Database where
  "emptyDatabase =
     \<lparr>airQualityData = [], waterSecurityData = [], greenSpaceData = [],
      livabilityScores = [], environmentalAlerts = []\<rparr>"

definition exampleDatabase :: Database where
  "exampleDatabase =
     \<lparr>airQualityData = [exampleAir (Fin 100) 1000],
      waterSecurityData = [exampleWater (Fin 40) None 1000],
      greenSpaceData = [exampleGreen (Fin 0.5) (Some (Fin 50)) 1000],
      livabilityScores = [], environmentalAlerts = []\<rparr>"

definition exampleRequest :: LivabilityRequest where
  "exampleRequest = \<lparr>params_lat = ''10'', params_lon = ''10'', query_location = None\<rparr>"

definition exampleContext :: EnvironmentalData where
  "exampleContext =
     \<lparr>EnvironmentalData.airQuality = Some [exampleAir (Fin 160) 2000, exampleAir (Fin 90) 1000],
      EnvironmentalData.waterSecurity = Some [exampleWater (Fin 85) (Some (Fin 75)) 2000],
      EnvironmentalData.greenSpace = Some [exampleGreen (Fin 0.1) None 2000],
      EnvironmentalData.location = None,
      EnvironmentalData.latitude = Some (Fin 10),
      EnvironmentalData.longitude = Some (Fin 10)\<rparr>"

section \<open>Properties of the livability calculator\<close>

lemmas calculator_defs =
  calculateLivabilityScore_def normalizeAirQuality_def normalizeWaterSecurity_def
  normalizeGreenSpace_def referenceValues_def weights_def js_le_def js_ge_def Let_def

text \<open>
  C2 as stated fails: a metric of \<open>-Infinity\<close> for air quality passes the first bucket
  test \<open>aqi \<le> 0\<close> and gets the best sub-score 100, not the worst one 5.
\<close>

theorem nonfinite_worst_case_counterexample:
  "LiveabilityResult.airQualityScore (calculateLivabilityScore
      \<lparr>LiveabilityMetrics.airQuality = NegInf, LiveabilityMetrics.waterSecurity = Fin 0,
       LiveabilityMetrics.greenSpace = Fin 0\<rparr>) = Fin 100
   \<and> LiveabilityResult.airQualityScore (calculateLivabilityScore
      \<lparr>LiveabilityMetrics.airQuality = NegInf, LiveabilityMetrics.waterSecurity = Fin 0,
       LiveabilityMetrics.greenSpace = Fin 0\<rparr>) \<noteq> Fin 5"
  by (simp add: calculator_defs)

text \<open>
  C2 (amended): the calculator has no test for non-finite input; a non-finite metric runs
  through the ordinary bucket comparisons.  NaN fails every comparison and so gets the
  minimum of its bucket set (5 for air quality, 10 for water security, 10 for green
  space).  An infinite metric gets the sub-score of the end of the scale it lies on:
  \<open>+Infinity\<close> gives 5 for air quality and 10 for water security but 100 for green
  space, \<open>-Infinity\<close> gives 10 for green space but 100 for air quality and for water
  security.
\<close>

theorem nonfinite_metric_scores:
  "LiveabilityResult.airQualityScore (calculateLivabilityScore
     (m\<lparr>LiveabilityMetrics.airQuality := NaN\<rparr>)) = Fin 5
   \<and> LiveabilityResult.waterSecurityScore (calculateLivabilityScore
     (m\<lparr>LiveabilityMetrics.waterSecurity := NaN\<rparr>)) = Fin 10
   \<and> LiveabilityResult.greenSpaceScore (calculateLivabilityScore
     (m\<lparr>LiveabilityMetrics.greenSpace := NaN\<rparr>)) = Fin 10
   \<and> LiveabilityResult.airQualityScore (calculateLivabilityScore
     (m\<lparr>LiveabilityMetrics.airQuality := PosInf\<rparr>)) = Fin 5
   \<and> LiveabilityResult.waterSecurityScore (calculateLivabilityScore
     (m\<lparr>LiveabilityMetrics.waterSecurity := PosInf\<rparr>)) = Fin 10
   \<and> LiveabilityResult.greenSpaceScore (calculateLivabilityScore
     (m\<lparr>LiveabilityMetrics.greenSpace := PosInf\<rparr>)) = Fin 100
   \<and> LiveabilityResult.airQualityScore (calculateLivabilityScore
     (m\<lparr>LiveabilityMetrics.airQuality := NegInf\<rparr>)) = Fin 100
   \<and> LiveabilityResult.waterSecurityScore (calculateLivabilityScore
     (m\<lparr>LiveabilityMetrics.waterSecurity := NegInf\<rparr>)) = Fin 100
   \<and> LiveabilityResult.greenSpaceScore (calculateLivabilityScore
     (m\<lparr>LiveabilityMetrics.greenSpace := NegInf\<rparr>)) = Fin 10"
  by (simp add: calculator_defs)

text \<open>
  C4: for the metrics \<open>{airQuality: 100, waterSecurity: 40, greenSpace: 50}\<close> the three
  sub-scores are 60, the overall score is \<open>round(0.40\<cdot>60 + 0.35\<cdot>60 + 0.25\<cdot>60) = 60\<close>,
  and the category of 60 is "Moderate".
\<close>

theorem calculateLivabilityScore_moderate_example:
  "LiveabilityResult.airQualityScore (calculateLivabilityScore
      \<lparr>LiveabilityMetrics.airQuality = Fin 100, LiveabilityMetrics.waterSecurity = Fin 40,
       LiveabilityMetrics.greenSpace = Fin 50\<rparr>) = Fin 60
   \<and> LiveabilityResult.waterSecurityScore (calculateLivabilityScore
      \<lparr>LiveabilityMetrics.airQuality = Fin 100, LiveabilityMetrics.waterSecurity = Fin 40,
       LiveabilityMetrics.greenSpace = Fin 50\<rparr>) = Fin 60
   \<and> LiveabilityResult.greenSpaceScore (calculateLivabilityScore
      \<lparr>LiveabilityMetrics.airQuality = Fin 100, LiveabilityMetrics.waterSecurity = Fin 40,
       LiveabilityMetrics.greenSpace = Fin 50\<rparr>) = Fin 60
   \<and> LiveabilityResult.overallScore (calculateLivabilityScore
      \<lparr>LiveabilityMetrics.airQuality = Fin 100, LiveabilityMetrics.waterSecurity = Fin 40,
       LiveabilityMetrics.greenSpace = Fin 50\<rparr>)
     = js_round (Fin (0.40 * 60 + 0.35 * 60 + 0.25 * 60))
   \<and> js_round (Fin (0.40 * 60 + 0.35 * 60 + 0.25 * 60)) = Fin 60
   \<and> Category.category (getLivabilityCategory (Fin 60)) = ''Moderate''"
  by (simp add: calculator_defs getLivabilityCategory_def)

text \<open>
  C5: the weights 0.40, 0.35 and 0.25 sum to exactly 1, and the overall score of the
  metrics (airQuality = 0, waterSecurity = 0, greenSpace = 100) is exactly 100.
\<close>

theorem weights_sum_and_best_score:
  "js_add (js_add (Weights.airQuality weights) (Weights.waterSecurity weights))
      (Weights.greenSpace weights) = Fin 1
   \<and> Weights.airQuality weights = Fin 0.40
   \<and> Weights.waterSecurity weights = Fin 0.35
   \<and> Weights.greenSpace weights = Fin 0.25
   \<and> LiveabilityResult.overallScore (calculateLivabilityScore
      \<lparr>LiveabilityMetrics.airQuality = Fin 0, LiveabilityMetrics.waterSecurity = Fin 0,
       LiveabilityMetrics.greenSpace = Fin 100\<rparr>) = Fin 100"
  by (simp add: calculator_defs)

text \<open>
  C6: \<open>normalizeAirQuality\<close> is monotonically non-increasing (\<open>a \<le> b\<close> gives
  \<open>normalizeAirQuality a \<ge> normalizeAirQuality b\<close>, for every JavaScript number, the
  non-finite ones included), and every value it returns is one of 100, 85, 60, 35, 15, 5.
\<close>

theorem normalizeAirQuality_monotone_range:
  "(js_le a b \<longrightarrow> js_ge (normalizeAirQuality a) (normalizeAirQuality b))
   \<and> normalizeAirQuality a \<in> {Fin 100, Fin 85, Fin 60, Fin 35, Fin 15, Fin 5}"
  by (cases a; cases b)
     (auto simp: normalizeAirQuality_def referenceValues_def js_le_def js_ge_def)

theorem normalizeAirQuality_monotone_range_witness:
  "js_le (Fin 40) (Fin 120)
   \<and> js_ge (normalizeAirQuality (Fin 40)) (normalizeAirQuality (Fin 120))
   \<and> normalizeAirQuality (Fin 40) = Fin 85 \<and> normalizeAirQuality (Fin 120) = Fin 35"
  using normalizeAirQuality_monotone_range [of "Fin 40" "Fin 120"]
  by (simp add: normalizeAirQuality_def referenceValues_def js_le_def js_ge_def)

section \<open>Properties of the alert service\<close>

subsection \<open>Severities stay between 0 and 100\<close>

text \<open>
  The three shapes of severity formula: a value at or above a non-negative bound, scaled
  by positive constants; the rise of the index beyond 50; the deficit below a positive
  threshold.  An infinite value is capped by \<open>Math.min\<close> at 100.
\<close>

lemma severity_scaled:
  assumes "js_ge a (Fin lo)" and "0 \<le> lo" and "0 < d" and "0 < k"
  shows "js_le (Fin 0) (js_min (Fin 100) (js_mul (js_div a (Fin d)) (Fin k)))
       \<and> js_le (js_min (Fin 100) (js_mul (js_div a (Fin d)) (Fin k))) (Fin 100)"
proof (cases a)
  case (Fin x)
  with assms have "0 \<le> x" by (simp add: js_ge_def js_le_def)
  with assms have "0 \<le> x / d * k" by simp
  with Fin assms show ?thesis by (simp add: js_le_def js_min_def)
qed (use assms in \<open>simp_all add: js_ge_def js_le_def js_min_def signed_inf_def\<close>)

lemma severity_rapid:
  assumes "js_gt c (Fin 50)"
  shows "js_le (Fin 0) (js_min (Fin 100) (js_mul (js_div c (Fin 50)) (Fin 40)))
       \<and> js_le (js_min (Fin 100) (js_mul (js_div c (Fin 50)) (Fin 40))) (Fin 100)"
proof -
  from assms have "js_ge c (Fin 50)"
    by (cases c) (simp_all add: js_gt_def js_ge_def js_le_def)
  then show ?thesis by (rule severity_scaled) simp_all
qed

lemma severity_deficit:
  assumes "js_le v (Fin t)" and "0 < t" and "0 < k"
  shows "js_le (Fin 0)
           (js_min (Fin 100) (js_mul (js_div (js_sub (Fin t) v) (Fin t)) (Fin k)))
       \<and> js_le (js_min (Fin 100) (js_mul (js_div (js_sub (Fin t) v) (Fin t)) (Fin k)))
           (Fin 100)"
proof (cases v)
  case (Fin x)
  with assms have "x \<le> t" by (simp add: js_le_def)
  with assms have nonneg: "0 \<le> (t - x) / t * k" by simp
  from Fin assms show ?thesis
    by (simp add: js_le_def js_min_def js_sub_def del: times_divide_eq_left)
       (use nonneg in linarith)
qed (use assms in \<open>simp_all add: js_le_def js_min_def signed_inf_def js_sub_def\<close>)

lemmas severity_rules =
  severity_scaled [of _ 150 150 70, simplified]
  severity_scaled [of _ 100 100 50, simplified]
  severity_scaled [of _ 80 100 80, simplified]
  severity_scaled [of _ 60 100 60, simplified]
  severity_scaled [of _ 70 100 75, simplified]
  severity_scaled [of _ 40 100 50, simplified]
  severity_deficit [of _ 15 70, simplified]
  severity_deficit [of _ 30 50, simplified]
  severity_rapid

lemma analyzeAirQuality_alerts:
  assumes "analyzeAirQuality h thresholds airData ctx = Inr alerts" and "a \<in> set alerts"
  shows "isActive a \<and> actionable a
       \<and> js_le (Fin 0) (severity a) \<and> js_le (severity a) (Fin 100)"
  using assms
  by (auto simp: analyzeAirQuality_def Let_def thresholds_def severity_rules
           split: if_splits)

lemma analyzeWaterSecurity_alerts:
  assumes "analyzeWaterSecurity h thresholds waterData ctx = Inr alerts"
    and "a \<in> set alerts"
  shows "isActive a \<and> actionable a
       \<and> js_le (Fin 0) (severity a) \<and> js_le (severity a) (Fin 100)"
  using assms
  by (auto simp: analyzeWaterSecurity_def Let_def thresholds_def severity_rules
           split: if_splits option.splits)

lemma analyzeGreenSpace_alerts:
  assumes "analyzeGreenSpace h thresholds greenData ctx = Inr alerts"
    and "a \<in> set alerts"
  shows "isActive a \<and> actionable a
       \<and> js_le (Fin 0) (severity a) \<and> js_le (severity a) (Fin 100)"
  using assms
  by (auto simp: analyzeGreenSpace_def Let_def thresholds_def severity_rules
           split: if_splits)

subsection \<open>\<open>generateAlerts\<close> always resolves\<close>

lemma air_step_resolves:
  "\<exists>as. (case EnvironmentalData.airQuality data of
           Some airData \<Rightarrow>
             if 0 < length airData then analyzeAirQuality h th airData data else Inr []
         | None \<Rightarrow> Inr []) = Inr as"
  by (cases "EnvironmentalData.airQuality data")
     (simp_all add: analyzeAirQuality_def Let_def)

lemma water_step_resolves:
  "\<exists>as. (case EnvironmentalData.waterSecurity data of
           Some waterData \<Rightarrow>
             if 0 < length waterData then analyzeWaterSecurity h th waterData data
             else Inr []
         | None \<Rightarrow> Inr []) = Inr as"
  by (cases "EnvironmentalData.waterSecurity data")
     (simp_all add: analyzeWaterSecurity_def Let_def)

lemma green_step_resolves:
  "\<exists>as. (case EnvironmentalData.greenSpace data of
           Some greenData \<Rightarrow>
             if 0 < length greenData then analyzeGreenSpace h th greenData data
             else Inr []
         | None \<Rightarrow> Inr []) = Inr as"
  by (cases "EnvironmentalData.greenSpace data")
     (simp_all add: analyzeGreenSpace_def Let_def)

lemma generateAlerts_resolves: "\<exists>alerts. generateAlerts h th data = Inr alerts"
proof -
  from air_step_resolves obtain a where
    "(case EnvironmentalData.airQuality data of
        Some airData \<Rightarrow>
          if 0 < length airData then analyzeAirQuality h th airData data else Inr []
      | None \<Rightarrow> Inr []) = Inr a" ..
  moreover from water_step_resolves obtain w where
    "(case EnvironmentalData.waterSecurity data of
        Some waterData \<Rightarrow>
          if 0 < length waterData then analyzeWaterSecurity h th waterData data
          else Inr []
      | None \<Rightarrow> Inr []) = Inr w" ..
  moreover from green_step_resolves obtain g where
    "(case EnvironmentalData.greenSpace data of
        Some greenData \<Rightarrow>
          if 0 < length greenData then analyzeGreenSpace h th greenData data
          else Inr []
      | None \<Rightarrow> Inr []) = Inr g" ..
  ultimately show ?thesis by (simp add: generateAlerts_def)
qed

lemma generateAlerts_member:
  assumes "generateAlerts h thresholds data = Inr alerts" and "a \<in> set alerts"
  shows "isActive a \<and> actionable a
       \<and> js_le (Fin 0) (severity a) \<and> js_le (severity a) (Fin 100)"
  using assms
  by (auto simp: generateAlerts_def split: sum.splits option.splits if_splits
           dest: analyzeAirQuality_alerts analyzeWaterSecurity_alerts
                 analyzeGreenSpace_alerts)

text \<open>
  C10: for every input, \<open>generateAlerts\<close> (with the thresholds the service is created
  with) resolves to a list of alerts, and every alert of the list has
  \<open>isActive = true\<close>, \<open>actionable = true\<close> and a severity in the closed interval
  from 0 to 100.
\<close>

theorem generateAlerts_alert_invariant:
  "\<exists>alerts. generateAlerts h thresholds data = Inr alerts
     \<and> (\<forall>a \<in> set alerts.
          isActive a \<and> actionable a
          \<and> js_le (Fin 0) (severity a) \<and> js_le (severity a) (Fin 100))"
proof -
  from generateAlerts_resolves obtain alerts where
    r: "generateAlerts h thresholds data = Inr alerts" ..
  with generateAlerts_member show ?thesis by blast
qed

text \<open>
  Witness of C10: the example context (AQI 160 after 90, water stress 85 with flood risk
  75, NDVI 0.1 without coverage) gives a non-empty list, and an alert of it has the three
  properties.
\<close>

lemma example_alerts_nonempty:
  "\<exists>x xs. generateAlerts exampleHost thresholds exampleContext = Inr (x # xs)"
  by (simp add: generateAlerts_def analyzeAirQuality_def analyzeWaterSecurity_def
        analyzeGreenSpace_def vegCoverage_def num_or_def exampleHost_def
        exampleContext_def exampleAir_def exampleWater_def exampleGreen_def
        thresholds_def Let_def js_ge_def js_le_def js_gt_def js_sub_def)

theorem generateAlerts_alert_invariant_witness:
  "\<exists>alerts a. generateAlerts exampleHost thresholds exampleContext = Inr alerts
     \<and> a \<in> set alerts \<and> isActive a \<and> actionable a
     \<and> js_le (Fin 0) (severity a) \<and> js_le (severity a) (Fin 100)"
proof -
  from generateAlerts_alert_invariant [of exampleHost exampleContext]
  obtain alerts where
    r: "generateAlerts exampleHost thresholds exampleContext = Inr alerts" and
    inv: "\<forall>a \<in> set alerts. isActive a \<and> actionable a
            \<and> js_le (Fin 0) (severity a) \<and> js_le (severity a) (Fin 100)"
    by blast
  from example_alerts_nonempty r obtain x xs where "alerts = x # xs" by auto
  with r inv show ?thesis by auto
qed

subsection \<open>Green space\<close>

text \<open>
  What holds of the computed coverage: it is \<open>ndvi \<times> 100\<close> when the field
  \<open>vegetationCoverage\<close> is missing, and the field when the field is present and truthy.
  The coverage then selects the alert: at most 15 gives one danger alert, above 15 and at
  most 30 one warning alert, anything else none.  The spec's example
  \<open>{ndvi: 0.1, vegetationCoverage: undefined}\<close> has coverage 10 and gives a danger
  alert.
\<close>

lemma vegCoverage_absent:
  "vegetationCoverage latest = None \<Longrightarrow> vegCoverage latest = js_mul (ndvi latest) (Fin 100)"
  by (simp add: vegCoverage_def num_or_def)

lemma vegCoverage_truthy:
  "vegetationCoverage latest = Some v \<Longrightarrow> js_truthy v \<Longrightarrow> vegCoverage latest = v"
  by (simp add: vegCoverage_def num_or_def)

lemma analyzeGreenSpace_levels:
  assumes "greenData \<noteq> []"
  shows "(js_le (vegCoverage (greenData ! 0)) (Fin 15) \<longrightarrow>
            (\<exists>a. analyzeGreenSpace h thresholds greenData ctx = Inr [a]
               \<and> type a = ''danger''))
       \<and> (\<not> js_le (vegCoverage (greenData ! 0)) (Fin 15)
            \<and> js_le (vegCoverage (greenData ! 0)) (Fin 30) \<longrightarrow>
            (\<exists>a. analyzeGreenSpace h thresholds greenData ctx = Inr [a]
               \<and> type a = ''warning''))
       \<and> (\<not> js_le (vegCoverage (greenData ! 0)) (Fin 30) \<longrightarrow>
            analyzeGreenSpace h thresholds greenData ctx = Inr [])"
  using assms
  by (cases "vegCoverage (greenData ! 0)")
     (simp_all add: analyzeGreenSpace_def thresholds_def Let_def js_le_def)

lemma analyzeGreenSpace_ndvi_example:
  "vegCoverage (exampleGreen (Fin 0.1) None t) = Fin 10
   \<and> (\<exists>a. analyzeGreenSpace h thresholds [exampleGreen (Fin 0.1) None t] ctx = Inr [a]
          \<and> type a = ''danger'')"
  by (simp add: analyzeGreenSpace_def vegCoverage_def num_or_def exampleGreen_def
        thresholds_def js_le_def Let_def)

text \<open>
  C1 fails on the code for a reading whose field \<open>vegetationCoverage\<close> is present
  and 0: \<open>0 || x\<close> is \<open>x\<close>, so the computed coverage of
  \<open>{ndvi: 0.5, vegetationCoverage: 0}\<close> is 50 and not the field's 0, and no alert is
  emitted although a coverage of 0 is at most 15.
\<close>

theorem analyzeGreenSpace_zero_coverage:
  "vegetationCoverage (exampleGreen (Fin 0.5) (Some (Fin 0)) t) = Some (Fin 0)
   \<and> vegCoverage (exampleGreen (Fin 0.5) (Some (Fin 0)) t) = Fin 50
   \<and> analyzeGreenSpace h thresholds [exampleGreen (Fin 0.5) (Some (Fin 0)) t] ctx = Inr []"
  by (simp add: analyzeGreenSpace_def vegCoverage_def num_or_def exampleGreen_def
        thresholds_def js_le_def Let_def)

subsection \<open>Air quality\<close>

text \<open>
  C3: when the two latest AQI values are 160 and 90, \<open>analyzeAirQuality\<close> resolves to
  exactly two alerts, a danger alert and then the rapid-deterioration warning (of
  severity \<open>70 / 50 \<times> 40 = 56\<close>).  In general, when there are at least two readings and
  the latest AQI minus the one before exceeds 50, the result is the alerts that the
  latest reading alone gives, followed by the rapid-deterioration warning.
\<close>

theorem analyzeAirQuality_rapid_deterioration:
  "(2 \<le> length airData \<and> aqi (airData ! 0) = Fin 160 \<and> aqi (airData ! 1) = Fin 90 \<longrightarrow>
      (\<exists>d w. analyzeAirQuality h thresholds airData ctx = Inr [d, w]
         \<and> type d = ''danger'' \<and> title d = ''Unhealthy Air Quality Detected''
         \<and> type w = ''warning'' \<and> title w = ''Rapid Air Quality Deterioration''
         \<and> severity w = Fin 56))
   \<and> (2 \<le> length airData
        \<and> js_gt (js_sub (aqi (airData ! 0)) (aqi (airData ! 1))) (Fin 50) \<longrightarrow>
      (\<exists>level w. analyzeAirQuality h thresholds [airData ! 0] ctx = Inr level
         \<and> analyzeAirQuality h thresholds airData ctx = Inr (level @ [w])
         \<and> type w = ''warning'' \<and> title w = ''Rapid Air Quality Deterioration''
         \<and> InsertEnvironmentalAlert.category w = ''air_quality''))"
proof (intro conjI impI)
  assume a: "2 \<le> length airData \<and> aqi (airData ! 0) = Fin 160
               \<and> aqi (airData ! 1) = Fin 90"
  then obtain x y rest where xs: "airData = x # y # rest"
    by (cases airData; cases "tl airData") auto
  from a show "\<exists>d w. analyzeAirQuality h thresholds airData ctx = Inr [d, w]
         \<and> type d = ''danger'' \<and> title d = ''Unhealthy Air Quality Detected''
         \<and> type w = ''warning'' \<and> title w = ''Rapid Air Quality Deterioration''
         \<and> severity w = Fin 56"
    unfolding xs
    by (simp add: analyzeAirQuality_def Let_def thresholds_def js_ge_def js_le_def
          js_gt_def js_sub_def js_min_def)
next
  assume a: "2 \<le> length airData
               \<and> js_gt (js_sub (aqi (airData ! 0)) (aqi (airData ! 1))) (Fin 50)"
  then obtain x y rest where xs: "airData = x # y # rest"
    by (cases airData; cases "tl airData") auto
  from a show "\<exists>level w. analyzeAirQuality h thresholds [airData ! 0] ctx = Inr level
         \<and> analyzeAirQuality h thresholds airData ctx = Inr (level @ [w])
         \<and> type w = ''warning'' \<and> title w = ''Rapid Air Quality Deterioration''
         \<and> InsertEnvironmentalAlert.category w = ''air_quality''"
    unfolding xs by (simp add: analyzeAirQuality_def Let_def)
qed

text \<open>Witness of C3: the readings 160 (latest) and 90.\<close>

theorem analyzeAirQuality_rapid_deterioration_witness:
  "2 \<le> length [exampleAir (Fin 160) 2000, exampleAir (Fin 90) 1000]
   \<and> aqi ([exampleAir (Fin 160) 2000, exampleAir (Fin 90) 1000] ! 0) = Fin 160
   \<and> aqi ([exampleAir (Fin 160) 2000, exampleAir (Fin 90) 1000] ! 1) = Fin 90
   \<and> js_gt (js_sub (aqi ([exampleAir (Fin 160) 2000, exampleAir (Fin 90) 1000] ! 0))
               (aqi ([exampleAir (Fin 160) 2000, exampleAir (Fin 90) 1000] ! 1))) (Fin 50)
   \<and> (\<exists>d w. analyzeAirQuality exampleHost thresholds
               [exampleAir (Fin 160) 2000, exampleAir (Fin 90) 1000] exampleContext
               = Inr [d, w]
         \<and> type d = ''danger'' \<and> type w = ''warning''
         \<and> title w = ''Rapid Air Quality Deterioration'' \<and> severity w = Fin 56)
   \<and> (\<exists>level w. analyzeAirQuality exampleHost thresholds
               [([exampleAir (Fin 160) 2000, exampleAir (Fin 90) 1000] ! 0)] exampleContext
               = Inr level
         \<and> analyzeAirQuality exampleHost thresholds
               [exampleAir (Fin 160) 2000, exampleAir (Fin 90) 1000] exampleContext
               = Inr (level @ [w])
         \<and> title w = ''Rapid Air Quality Deterioration'')"
proof -
  let ?xs = "[exampleAir (Fin 160) 2000, exampleAir (Fin 90) 1000]"
  have p: "2 \<le> length ?xs \<and> aqi (?xs ! 0) = Fin 160 \<and> aqi (?xs ! 1) = Fin 90"
    by (simp add: exampleAir_def)
  have g: "js_gt (js_sub (aqi (?xs ! 0)) (aqi (?xs ! 1))) (Fin 50)"
    by (simp add: exampleAir_def js_gt_def js_sub_def)
  from analyzeAirQuality_rapid_deterioration [of ?xs exampleHost exampleContext] p
  have "\<exists>d w. analyzeAirQuality exampleHost thresholds ?xs exampleContext = Inr [d, w]
         \<and> type d = ''danger'' \<and> title d = ''Unhealthy Air Quality Detected''
         \<and> type w = ''warning'' \<and> title w = ''Rapid Air Quality Deterioration''
         \<and> severity w = Fin 56"
    by blast
  moreover
  from analyzeAirQuality_rapid_deterioration [of ?xs exampleHost exampleContext] p g
  have "\<exists>level w. analyzeAirQuality exampleHost thresholds [?xs ! 0] exampleContext
           = Inr level
         \<and> analyzeAirQuality exampleHost thresholds ?xs exampleContext = Inr (level @ [w])
         \<and> type w = ''warning'' \<and> title w = ''Rapid Air Quality Deterioration''
         \<and> InsertEnvironmentalAlert.category w = ''air_quality''"
    by blast
  ultimately show ?thesis using p g by blast
qed

section \<open>Properties of the storage and of the routes\<close>

subsection \<open>Single-precision rounding\<close>

text \<open>
  The exponent of a number inside a binade, the rounding of the numbers between 8 and 16
  (to multiples of \<open>1 / 2 ^ 20\<close>) and the values used below.
\<close>

lemma float4_exponent_eq:
  assumes "2 powr of_int e \<le> \<bar>x\<bar>" and "\<bar>x\<bar> < 2 powr of_int (e + 1)" and "- 126 \<le> e"
  shows "float4_exponent x = e"
proof -
  from assms(1) have "0 < \<bar>x\<bar>" by (smt (verit) powr_gt_zero)
  with assms have "\<lfloor>log 2 \<bar>x\<bar>\<rfloor> = e"
    by (simp add: floor_log_eq_powr_iff)
  with assms(3) show ?thesis by (simp add: float4_exponent_def)
qed

lemma float4_of_real_8_16:
  assumes "8 \<le> \<bar>x\<bar>" and "\<bar>x\<bar> < 16"
  shows "float4_of_real x = of_int (round_half_even (x * 1048576)) / 1048576"
proof -
  have "float4_exponent x = 3"
    using assms by (intro float4_exponent_eq) simp_all
  then have q: "(2::real) powr of_int (float4_exponent x - 23) = 1 / 1048576"
    by (simp add: powr_minus_divide)
  from assms have "x \<noteq> 0" by auto
  then show ?thesis unfolding float4_of_real_def q Let_def by simp
qed

lemma float4_of_real_values:
  "float4_of_real (99 / 10) = 10380902 / 1048576"
  "float4_of_real (198000001 / 20000000) = 10380902 / 1048576"
  "float4_of_real 10 = 10"
  "float4_of_real (201999999 / 20000000) = 10590618 / 1048576"
  "float4_of_real (101 / 10) = 10590618 / 1048576"
  "float4_of_real (9899999 / 1000000) = 10380901 / 1048576"
  "float4_of_real (10100001 / 1000000) = 10590619 / 1048576"
  by (simp_all add: float4_of_real_8_16 round_half_even_def)


















subsection \<open>The bounding-box query\<close>




subsection \<open>The handlers\<close>

text \<open>
  C8: for every database and every alert id, the dismiss handler answers 200 with
  \<open>{success: true, message: "Alert dismissed"}\<close> and leaves the database as it was: the
  stored alerts, and with them every \<open>isActive\<close> flag, are unchanged.
\<close>

theorem dismissAlertHandler_no_effect:
  "status (fst (dismissAlertHandler db params_id)) = 200
   \<and> body (fst (dismissAlertHandler db params_id)) = Dismissed True ''Alert dismissed''
   \<and> snd (dismissAlertHandler db params_id) = db
   \<and> environmentalAlerts (snd (dismissAlertHandler db params_id)) = environmentalAlerts db
   \<and> map isActive (environmentalAlerts (snd (dismissAlertHandler db params_id)))
       = map isActive (environmentalAlerts db)"
  by (simp add: dismissAlertHandler_def)

text \<open>
  C7: for a livability request whose two coordinates parse to finite numbers, let the
  recent data be the readings of the last 24 hours around the coordinates.  If one of its
  three categories is empty, the handler answers 404 with the insufficient-data error and
  the database is unchanged.  If all three are non-empty, it answers 200 and the database
  differs from the old one by one score appended to \<open>livabilityScores\<close>.  So the
  stored scores change only when all three categories are non-empty.
\<close>

theorem livabilityHandler_insufficient_data:
  assumes "parseFloat h (params_lat req) = Fin x"
    and "parseFloat h (params_lon req) = Fin y"
  shows
    "(RecentEnvironmentalData.airQuality
        (getRecentEnvironmentalData db now (Fin x) (Fin y) (Some 24)) = []
      \<or> RecentEnvironmentalData.waterSecurity
          (getRecentEnvironmentalData db now (Fin x) (Fin y) (Some 24)) = []
      \<or> RecentEnvironmentalData.greenSpace
          (getRecentEnvironmentalData db now (Fin x) (Fin y) (Some 24)) = []
      \<longrightarrow> status (fst (livabilityHandler h now newId dbNow db req)) = 404
        \<and> body (fst (livabilityHandler h now newId dbNow db req))
            = Error ''Insufficient environmental data for livability calculation''
        \<and> snd (livabilityHandler h now newId dbNow db req) = db)
     \<and> (RecentEnvironmentalData.airQuality
          (getRecentEnvironmentalData db now (Fin x) (Fin y) (Some 24)) \<noteq> []
        \<and> RecentEnvironmentalData.waterSecurity
            (getRecentEnvironmentalData db now (Fin x) (Fin y) (Some 24)) \<noteq> []
        \<and> RecentEnvironmentalData.greenSpace
            (getRecentEnvironmentalData db now (Fin x) (Fin y) (Some 24)) \<noteq> []
      \<longrightarrow> status (fst (livabilityHandler h now newId dbNow db req)) = 200
        \<and> (\<exists>score. snd (livabilityHandler h now newId dbNow db req)
                      = db\<lparr>livabilityScores := livabilityScores db @ [score]\<rparr>
              \<and> LiveabilityScore.id' score = newId
              \<and> LiveabilityScore.timestamp score = dbNow))
     \<and> (livabilityScores (snd (livabilityHandler h now newId dbNow db req))
          \<noteq> livabilityScores db
      \<longrightarrow> RecentEnvironmentalData.airQuality
            (getRecentEnvironmentalData db now (Fin x) (Fin y) (Some 24)) \<noteq> []
        \<and> RecentEnvironmentalData.waterSecurity
            (getRecentEnvironmentalData db now (Fin x) (Fin y) (Some 24)) \<noteq> []
        \<and> RecentEnvironmentalData.greenSpace
            (getRecentEnvironmentalData db now (Fin x) (Fin y) (Some 24)) \<noteq> [])"
    (is "(?empty \<longrightarrow> ?refused) \<and> (?full \<longrightarrow> ?ok \<and> ?stored) \<and> (?changed \<longrightarrow> ?full)")
proof (intro conjI impI)
  assume ?empty
  with assms show "status (fst (livabilityHandler h now newId dbNow db req)) = 404"
    and "body (fst (livabilityHandler h now newId dbNow db req))
           = Error ''Insufficient environmental data for livability calculation''"
    and "snd (livabilityHandler h now newId dbNow db req) = db"
    by (auto simp: livabilityHandler_def Let_def)
next
  assume ?full
  with assms show ?ok by (simp add: livabilityHandler_def Let_def)
  from \<open>?full\<close> assms show ?stored
    apply (simp add: livabilityHandler_def Let_def insertLivabilityScore_def)
    apply (rule exI, rule conjI, rule refl)
    apply (simp add: InsertLivabilityScore.defs LiveabilityScore.defs)
    done
next
  assume changed: ?changed
  have "\<not> ?empty"
  proof
    assume ?empty
    with assms have "snd (livabilityHandler h now newId dbNow db req) = db"
      by (auto simp: livabilityHandler_def Let_def)
    with changed show False by simp
  qed
  then show "RecentEnvironmentalData.airQuality
               (getRecentEnvironmentalData db now (Fin x) (Fin y) (Some 24)) \<noteq> []"
    and "RecentEnvironmentalData.waterSecurity
           (getRecentEnvironmentalData db now (Fin x) (Fin y) (Some 24)) \<noteq> []"
    and "RecentEnvironmentalData.greenSpace
           (getRecentEnvironmentalData db now (Fin x) (Fin y) (Some 24)) \<noteq> []"
    by simp_all
qed

text \<open>
  Witness of C7: the request for (10, 10) at time 2000 is refused on the empty database,
  which stays as it is, and answered 200 with one stored score on the example database,
  whose three readings (at time 1000) lie inside the window.
\<close>

theorem livabilityHandler_insufficient_data_witness:
  "parseFloat exampleHost (params_lat exampleRequest) = Fin 10
   \<and> parseFloat exampleHost (params_lon exampleRequest) = Fin 10
   \<and> RecentEnvironmentalData.airQuality
       (getRecentEnvironmentalData emptyDatabase 2000 (Fin 10) (Fin 10) (Some 24)) = []
   \<and> status (fst (livabilityHandler exampleHost 2000 ''score-1'' 2001 emptyDatabase
                    exampleRequest)) = 404
   \<and> snd (livabilityHandler exampleHost 2000 ''score-1'' 2001 emptyDatabase exampleRequest)
       = emptyDatabase
   \<and> RecentEnvironmentalData.airQuality
       (getRecentEnvironmentalData exampleDatabase 2000 (Fin 10) (Fin 10) (Some 24)) \<noteq> []
   \<and> RecentEnvironmentalData.waterSecurity
       (getRecentEnvironmentalData exampleDatabase 2000 (Fin 10) (Fin 10) (Some 24)) \<noteq> []
   \<and> RecentEnvironmentalData.greenSpace
       (getRecentEnvironmentalData exampleDatabase 2000 (Fin 10) (Fin 10) (Some 24)) \<noteq> []
   \<and> status (fst (livabilityHandler exampleHost 2000 ''score-1'' 2001 exampleDatabase
                    exampleRequest)) = 200
   \<and> length (livabilityScores
        (snd (livabilityHandler exampleHost 2000 ''score-1'' 2001 exampleDatabase
                exampleRequest))) = 1
   \<and> livabilityScores
        (snd (livabilityHandler exampleHost 2000 ''score-1'' 2001 exampleDatabase
                exampleRequest)) \<noteq> livabilityScores exampleDatabase"
proof -
  have coords:
    "parseFloat exampleHost (params_lat exampleRequest) = Fin 10"
    "parseFloat exampleHost (params_lon exampleRequest) = Fin 10"
    by (simp_all add: exampleHost_def exampleRequest_def)
  have none:
    "RecentEnvironmentalData.airQuality
       (getRecentEnvironmentalData emptyDatabase 2000 (Fin 10) (Fin 10) (Some 24)) = []"
    by (simp add: getRecentEnvironmentalData_def getAirQualityDataByLocation_def
          emptyDatabase_def Let_def)
  have some:
    "RecentEnvironmentalData.airQuality
       (getRecentEnvironmentalData exampleDatabase 2000 (Fin 10) (Fin 10) (Some 24)) \<noteq> []"
    "RecentEnvironmentalData.waterSecurity
       (getRecentEnvironmentalData exampleDatabase 2000 (Fin 10) (Fin 10) (Some 24)) \<noteq> []"
    "RecentEnvironmentalData.greenSpace
       (getRecentEnvironmentalData exampleDatabase 2000 (Fin 10) (Fin 10) (Some 24)) \<noteq> []"
    by (simp_all add: getRecentEnvironmentalData_def getAirQualityDataByLocation_def
          getWaterSecurityDataByLocation_def getGreenSpaceDataByLocation_def
          exampleDatabase_def exampleAir_def exampleWater_def exampleGreen_def Let_def
          pg_ge_def pg_le_def js_le_def js_sub_def float4_of_real_values)
  from livabilityHandler_insufficient_data
         [OF coords, of emptyDatabase 2000 "''score-1''" 2001] none
  have refused:
    "status (fst (livabilityHandler exampleHost 2000 ''score-1'' 2001 emptyDatabase
                    exampleRequest)) = 404"
    "snd (livabilityHandler exampleHost 2000 ''score-1'' 2001 emptyDatabase exampleRequest)
       = emptyDatabase"
    by simp_all
  from livabilityHandler_insufficient_data
         [OF coords, of exampleDatabase 2000 "''score-1''" 2001] some
  have ok:
    "status (fst (livabilityHandler exampleHost 2000 ''score-1'' 2001 exampleDatabase
                    exampleRequest)) = 200"
    and "\<exists>score. snd (livabilityHandler exampleHost 2000 ''score-1'' 2001 exampleDatabase
                        exampleRequest)
             = exampleDatabase
                 \<lparr>livabilityScores := livabilityScores exampleDatabase @ [score]\<rparr>
           \<and> LiveabilityScore.id' score = ''score-1''
           \<and> LiveabilityScore.timestamp score = 2001"
    by blast+
  then obtain score where
    "snd (livabilityHandler exampleHost 2000 ''score-1'' 2001 exampleDatabase exampleRequest)
       = exampleDatabase\<lparr>livabilityScores := livabilityScores exampleDatabase @ [score]\<rparr>"
    by blast
  then have stored:
    "length (livabilityScores
       (snd (livabilityHandler exampleHost 2000 ''score-1'' 2001 exampleDatabase
               exampleRequest))) = 1"
    by (simp add: exampleDatabase_def)
  then have changed:
    "livabilityScores
       (snd (livabilityHandler exampleHost 2000 ''score-1'' 2001 exampleDatabase
               exampleRequest)) \<noteq> livabilityScores exampleDatabase"
    by (auto simp: exampleDatabase_def)
  from coords none some refused ok stored changed show ?thesis by simp
qed

end
